theory Spec2Isabelle
  imports Main
begin

section \<open>IPv4 address validator (ip\_validator.py)\<close>

text \<open>
  The module has one function, \<^verbatim>\<open>is_valid_ipv4\<close>. It checks the type of its
  argument, strips outer whitespace, splits on the dot, and runs four tests on every
  segment; the numeric test is Python's \<^verbatim>\<open>int()\<close> inside a
  \<^verbatim>\<open>try ... except ValueError\<close>.

  The function is shallowly embedded below. The built-ins it calls
  (\<^verbatim>\<open>str.strip\<close>, \<^verbatim>\<open>str.split\<close>, \<^verbatim>\<open>len\<close>, indexing,
  \<^verbatim>\<open>int\<close>) are modelled after CPython 3.11, since what the validator accepts
  is decided by what \<^verbatim>\<open>int()\<close> accepts.
\<close>

subsection \<open>Values, strings and exceptions\<close>

text \<open>
  A Python \<^verbatim>\<open>str\<close> is a sequence of Unicode code points, so a string is a list
  of naturals here (not of 8-bit characters: \<^verbatim>\<open>strip\<close> and \<^verbatim>\<open>int\<close>
  both look at code points beyond ASCII). \<open>ustr\<close> reads an ASCII literal.
\<close>

type_synonym py_str = "nat list"

definition ustr :: "string \<Rightarrow> py_str" where
  "ustr s = map of_char s"

text \<open>The argument is dynamically typed: anything can be passed.\<close>

datatype py_value =
    PyNone
  | PyBool bool
  | PyInt int
  | PyStr py_str
  | PyBytes "nat list"
  | PyList "py_value list"
  | PyDict "(py_value \<times> py_value) list"

datatype py_error = TypeError | ValueError | IndexError

text \<open>\<^verbatim>\<open>isinstance(v, str)\<close>\<close>

fun isinstance_str :: "py_value \<Rightarrow> bool" where
  "isinstance_str (PyStr s) = True"
| "isinstance_str v = False"

text \<open>
  What the interpreter brings and the repository does not fix: the table behind
  \<^verbatim>\<open>Py_UNICODE_TODECIMAL\<close> (the decimal value of a code point of category Nd)
  and the limit \<^verbatim>\<open>sys.get_int_max_str_digits()\<close> (0 switches it off; 4300 by
  default). Every theorem below holds for every such runtime.
\<close>

record py_runtime =
  unicode_decimal :: "nat \<Rightarrow> nat option"
  max_str_digits :: nat

subsection \<open>Whitespace, strip and split\<close>

text \<open>
  \<^verbatim>\<open>Py_UNICODE_ISSPACE\<close>, the test \<^verbatim>\<open>str.strip()\<close> uses: U+0009..U+000D,
  U+001C..U+0020, U+0085, U+00A0, U+1680, U+2000..U+200A, U+2028, U+2029, U+202F,
  U+205F, U+3000.
\<close>

definition py_isspace :: "nat \<Rightarrow> bool" where
  "py_isspace c =
     ((9 \<le> c \<and> c \<le> 13) \<or> (28 \<le> c \<and> c \<le> 32) \<or> c = 133 \<or> c = 160 \<or> c = 5760 \<or>
      (8192 \<le> c \<and> c \<le> 8202) \<or> c = 8232 \<or> c = 8233 \<or> c = 8239 \<or> c = 8287 \<or>
      c = 12288)"

text \<open>
  \<^verbatim>\<open>Py_ISSPACE\<close>, the narrower ASCII test that \<^verbatim>\<open>PyLong_FromString\<close> uses:
  tab, LF, VT, FF, CR and the space.
\<close>

definition c_isspace :: "nat \<Rightarrow> bool" where
  "c_isspace c = ((9 \<le> c \<and> c \<le> 13) \<or> c = 32)"

text \<open>\<^verbatim>\<open>s.strip()\<close>: whitespace is dropped from the left end, then from the right.\<close>

definition py_strip :: "py_str \<Rightarrow> py_str" where
  "py_strip s = rev (dropWhile py_isspace (rev (dropWhile py_isspace s)))"

text \<open>
  \<^verbatim>\<open>s.split(sep)\<close> for a one-character separator: one segment more than there
  are separators, empty segments kept, \<^verbatim>\<open>''.split('.') == ['']\<close>. \<open>cur\<close> holds
  the segment being read, reversed.
\<close>

fun split_from :: "nat \<Rightarrow> py_str \<Rightarrow> py_str \<Rightarrow> py_str list" where
  "split_from sep cur [] = [rev cur]"
| "split_from sep cur (c # cs) =
     (if c = sep then rev cur # split_from sep [] cs
      else split_from sep (c # cur) cs)"

definition py_split :: "nat \<Rightarrow> py_str \<Rightarrow> py_str list" where
  "py_split sep s = split_from sep [] s"

text \<open>\<^verbatim>\<open>s[i]\<close> for an index from the left: out of range raises.\<close>

definition py_getitem :: "py_str \<Rightarrow> nat \<Rightarrow> py_error + nat" where
  "py_getitem s i = (if i < length s then Inr (s ! i) else Inl IndexError)"

subsection \<open>int() on a string\<close>

text \<open>
  \<^verbatim>\<open>int(u)\<close> for a \<^verbatim>\<open>str\<close> is \<^verbatim>\<open>PyLong_FromUnicodeObject(u, 10)\<close>.
  First \<^verbatim>\<open>_PyUnicode_TransformDecimalAndSpaceToASCII\<close>: an ASCII string is taken
  as it is; otherwise a code point below 127 is kept, a Unicode space becomes a blank,
  a Unicode decimal digit becomes its ASCII digit, and anything else becomes a question
  mark that ends the buffer.
\<close>

fun transform_decimal_and_space :: "py_runtime \<Rightarrow> py_str \<Rightarrow> py_str" where
  "transform_decimal_and_space rt [] = []"
| "transform_decimal_and_space rt (c # cs) =
     (if c < 127 then c # transform_decimal_and_space rt cs
      else if py_isspace c then 32 # transform_decimal_and_space rt cs
      else (case unicode_decimal rt c of
              None \<Rightarrow> [63]
            | Some d \<Rightarrow> (48 + d) # transform_decimal_and_space rt cs))"

definition to_ascii :: "py_runtime \<Rightarrow> py_str \<Rightarrow> py_str" where
  "to_ascii rt u = (if list_all (\<lambda>c. c < 128) u then u else transform_decimal_and_space rt u)"

text \<open>An ASCII decimal digit, and its value in base 10.\<close>

definition is_digit :: "nat \<Rightarrow> bool" where
  "is_digit c = (48 \<le> c \<and> c \<le> 57)"

text \<open>
  The scan of \<^verbatim>\<open>PyLong_FromString\<close> over digits and underscores: \<open>prev\<close> is the
  character before, \<open>n\<close> counts the digits (not the underscores), \<open>v\<close> is the value
  so far. Two underscores in a row and an underscore at the end are errors. It returns
  the count, the value and what is left of the buffer.
\<close>

fun scan_digits :: "nat \<Rightarrow> nat \<Rightarrow> nat \<Rightarrow> py_str \<Rightarrow> py_error + (nat \<times> nat \<times> py_str)" where
  "scan_digits prev n v [] = (if prev = 95 then Inl ValueError else Inr (n, v, []))"
| "scan_digits prev n v (c # cs) =
     (if c = 95 then (if prev = 95 then Inl ValueError else scan_digits c n v cs)
      else if is_digit c then scan_digits c (Suc n) (10 * v + (c - 48)) cs
      else if prev = 95 then Inl ValueError
      else Inr (n, v, c # cs))"

text \<open>The optional sign: the factor, and the buffer after it.\<close>

fun read_sign :: "py_str \<Rightarrow> int \<times> py_str" where
  "read_sign [] = (1, [])"
| "read_sign (c # cs) =
     (if c = 43 then (1, cs) else if c = 45 then (- 1, cs) else (1, c # cs))"

text \<open>
  \<^verbatim>\<open>PyLong_FromString(buf, &end, 10)\<close>: leading blanks, an optional sign, no
  underscore first, the digits, the limit on their number (checked only past 640
  digits), at least one character read, trailing blanks, and then the end of the
  string. Every failure is a \<^verbatim>\<open>ValueError\<close>. A NUL inside the string is a
  character that is neither digit nor blank, so it fails like any other.
\<close>

definition py_int :: "py_runtime \<Rightarrow> py_str \<Rightarrow> py_error + int" where
  "py_int rt u =
     (case read_sign (dropWhile c_isspace (to_ascii rt u)) of
        (sign, start) \<Rightarrow>
          if take 1 start = [95] then Inl ValueError
          else (case scan_digits 0 0 0 start of
                  Inl e \<Rightarrow> Inl e
                | Inr (n, v, rest) \<Rightarrow>
                    if 640 < n \<and> 0 < max_str_digits rt \<and> max_str_digits rt < n
                    then Inl ValueError
                    else if rest = start then Inl ValueError
                    else if dropWhile c_isspace rest \<noteq> [] then Inl ValueError
                    else Inr (sign * int v)))"

subsection \<open>is\_valid\_ipv4\<close>

text \<open>What one pass through the body of the \<^verbatim>\<open>for\<close> loop ends in.\<close>

datatype flow = Return bool | Continue

text \<open>\<^verbatim>\<open>len(octet) > 1 and octet[0] == '0'\<close>, the index read only if the length test holds.\<close>

definition leading_zero :: "py_str \<Rightarrow> py_error + bool" where
  "leading_zero octet =
     (if 1 < length octet
      then (case py_getitem octet 0 of Inl e \<Rightarrow> Inl e | Inr c \<Rightarrow> Inr (c = 48))
      else Inr False)"

text \<open>
  The loop body: empty segment, leading zero, then \<^verbatim>\<open>int(octet)\<close> and the range
  test inside the \<^verbatim>\<open>try\<close>, whose handler catches \<^verbatim>\<open>ValueError\<close> only.
\<close>

definition loop_body :: "py_runtime \<Rightarrow> py_str \<Rightarrow> py_error + flow" where
  "loop_body rt octet =
     (if octet = [] then Inr (Return False)
      else (case leading_zero octet of
              Inl e \<Rightarrow> Inl e
            | Inr zero \<Rightarrow>
                if zero then Inr (Return False)
                else (case py_int rt octet of
                        Inl e \<Rightarrow> (if e = ValueError then Inr (Return False) else Inl e)
                      | Inr num \<Rightarrow>
                          if \<not> (0 \<le> num \<and> num \<le> 255) then Inr (Return False)
                          else Inr Continue)))"

text \<open>\<^verbatim>\<open>for octet in octets: ...\<close> followed by \<^verbatim>\<open>return True\<close>.\<close>

fun octets_loop :: "py_runtime \<Rightarrow> py_str list \<Rightarrow> py_error + bool" where
  "octets_loop rt [] = Inr True"
| "octets_loop rt (octet # octets) =
     (case loop_body rt octet of
        Inl e \<Rightarrow> Inl e
      | Inr (Return b) \<Rightarrow> Inr b
      | Inr Continue \<Rightarrow> octets_loop rt octets)"

definition is_valid_ipv4 :: "py_runtime \<Rightarrow> py_value \<Rightarrow> py_error + bool" where
  "is_valid_ipv4 rt ip_address =
     (if \<not> isinstance_str ip_address then Inl TypeError
      else (case ip_address of
              PyStr s \<Rightarrow>
                (let octets = py_split 46 (py_strip s)
                 in if length octets \<noteq> 4 then Inr False
                    else octets_loop rt octets)
            | _ \<Rightarrow> Inl TypeError))"

subsection \<open>A concrete runtime\<close>

text \<open>
  CPython 3.11 with its defaults: Unicode 14.0 has 66 runs of ten decimal digits (the
  list gives the code point of each zero; the ASCII run is left out, since code points
  below 127 never reach the table) and the digit limit is 4300.
\<close>

definition nd_zeros :: "nat list" where
  "nd_zeros =
     [1632, 1776, 1984, 2406, 2534, 2662, 2790, 2918, 3046, 3174, 3302, 3430, 3558,
      3664, 3792, 3872, 4160, 4240, 6112, 6160, 6470, 6608, 6784, 6800, 6992, 7088,
      7232, 7248, 42528, 43216, 43264, 43472, 43504, 43600, 44016, 65296, 66720, 68912,
      69734, 69872, 69942, 70096, 70384, 70736, 70864, 71248, 71360, 71472, 71904,
      72016, 72784, 73040, 73120, 92768, 92864, 93008, 120782, 120792, 120802, 120812,
      120822, 123200, 123632, 125264, 130032]"

definition unicode14_decimal :: "nat \<Rightarrow> nat option" where
  "unicode14_decimal c =
     (case find (\<lambda>z. z \<le> c \<and> c < z + 10) nd_zeros of
        None \<Rightarrow> None
      | Some z \<Rightarrow> Some (c - z))"

definition cpython311 :: py_runtime where
  "cpython311 = \<lparr>unicode_decimal = unicode14_decimal, max_str_digits = 4300\<rparr>"

subsection \<open>The grammar of the specification\<close>

text \<open>
  The value of a string of ASCII digits read in base 10 (the "integer value" of a
  segment in the specification's range law).
\<close>

definition dec_value :: "py_str \<Rightarrow> nat" where
  "dec_value seg = foldl (\<lambda>v c. 10 * v + (c - 48)) 0 seg"

text \<open>
  The dotted-decimal grammar as section 3 of the specification words it, to be compared
  with \<open>is_valid_ipv4\<close>: a segment is non-empty, has only the digits 0-9, has no
  leading zero unless it is the single digit 0, and its value is at most 255; the
  trimmed text has exactly four segments.
\<close>

definition spec_octet :: "py_str \<Rightarrow> bool" where
  "spec_octet seg =
     (seg \<noteq> [] \<and> list_all is_digit seg \<and> \<not> (1 < length seg \<and> hd seg = 48) \<and>
      dec_value seg \<le> 255)"

definition spec_grammar :: "py_str \<Rightarrow> bool" where
  "spec_grammar s =
     (length (py_split 46 (py_strip s)) = 4 \<and> list_all spec_octet (py_split 46 (py_strip s)))"

section \<open>Properties\<close>

subsection \<open>Unfolding the model on a concrete input\<close>

lemmas eval_defs =
  is_valid_ipv4_def ustr_def py_strip_def py_isspace_def py_split_def loop_body_def
  leading_zero_def py_getitem_def py_int_def to_ascii_def c_isspace_def is_digit_def


subsection \<open>The loop never raises\<close>

text \<open>
  \<^verbatim>\<open>int()\<close> fails with \<^verbatim>\<open>ValueError\<close> only, which the handler catches, and
  the index \<^verbatim>\<open>octet[0]\<close> is read only behind the length test. So one pass through
  the body either returns \<^verbatim>\<open>False\<close> or goes on to the next segment.
\<close>

lemma scan_digits_error: "scan_digits prev n v s = Inl e \<Longrightarrow> e = ValueError"
  by (induction prev n v s rule: scan_digits.induct) (auto split: if_splits)

lemma py_int_error: "py_int rt u = Inl e \<Longrightarrow> e = ValueError"
  by (auto simp: py_int_def split: prod.splits if_splits sum.splits dest: scan_digits_error)

lemma leading_zero_no_raise: "leading_zero octet = Inr (1 < length octet \<and> hd octet = 48)"
  by (cases octet) (simp_all add: leading_zero_def py_getitem_def)

lemma loop_body_cases:
  "loop_body rt octet = Inr (Return False) \<or> loop_body rt octet = Inr Continue"
  by (auto simp: loop_body_def leading_zero_no_raise split: sum.splits bool.splits
      dest: py_int_error)


lemma octets_loop_leading_zero:
  "\<exists>seg\<in>set octets. 1 < length seg \<and> hd seg = 48 \<Longrightarrow> octets_loop rt octets = Inr False"
proof (induction octets)
  case Nil
  then show ?case by simp
next
  case (Cons octet octets)
  show ?case
  proof (cases "1 < length octet \<and> hd octet = 48")
    case True
    then have "loop_body rt octet = Inr (Return False)"
      by (auto simp: loop_body_def leading_zero_no_raise)
    then show ?thesis by simp
  next
    case False
    with Cons.prems have "\<exists>seg\<in>set octets. 1 < length seg \<and> hd seg = 48" by auto
    then have "octets_loop rt octets = Inr False" by (rule Cons.IH)
    with loop_body_cases [of rt octet] show ?thesis by auto
  qed
qed

lemma loop_body_Continue:
  "loop_body rt octet = Inr Continue \<longleftrightarrow>
     octet \<noteq> [] \<and> \<not> (1 < length octet \<and> hd octet = 48) \<and>
     (\<exists>num. py_int rt octet = Inr num \<and> 0 \<le> num \<and> num \<le> 255)"
  by (auto simp: loop_body_def leading_zero_no_raise split: sum.splits bool.splits)

lemma octets_loop_True:
  "octets_loop rt octets = Inr True \<longleftrightarrow> (\<forall>seg\<in>set octets. loop_body rt seg = Inr Continue)"
proof (induction octets)
  case Nil
  show ?case by simp
next
  case (Cons octet octets)
  from loop_body_cases [of rt octet] Cons.IH show ?case by auto
qed


subsection \<open>Stripping twice\<close>

lemma hd_dropWhile_not: "dropWhile P xs \<noteq> [] \<Longrightarrow> \<not> P (hd (dropWhile P xs))"
  by (induction xs) auto

lemma py_strip_idem: "py_strip (py_strip s) = py_strip s"
proof -
  define t where "t = dropWhile py_isspace s"
  define u where "u = rev (dropWhile py_isspace (rev t))"
  have t: "t = u @ rev (takeWhile py_isspace (rev t))"
    unfolding u_def by (metis rev_append rev_rev_ident takeWhile_dropWhile_id)
  have "dropWhile py_isspace u = u"
  proof (cases u)
    case Nil
    then show ?thesis by simp
  next
    case (Cons a as)
    with t have "t \<noteq> []" and "hd t = a" by (metis append_is_Nil_conv list.distinct(1), metis hd_append2 list.sel(1) list.distinct(1))
    with hd_dropWhile_not [of py_isspace s] have "\<not> py_isspace a" by (simp add: t_def)
    with Cons show ?thesis by simp
  qed
  moreover have "dropWhile py_isspace (rev u) = rev u"
    by (simp add: u_def dropWhile_idem)
  ultimately show ?thesis
    by (simp add: py_strip_def t_def [symmetric] u_def [symmetric])
qed

subsection \<open>Segments of plain digits\<close>

text \<open>
  On a non-empty string of ASCII digits \<^verbatim>\<open>int()\<close> returns the decimal value,
  unless the digit limit of the runtime is exceeded; a segment that long and without a
  leading zero is far above 255, so the verdict is the same.
\<close>

lemma scan_digits_all_digits:
  "list_all is_digit s \<Longrightarrow> prev \<noteq> 95 \<Longrightarrow>
   scan_digits prev n v s = Inr (n + length s, foldl (\<lambda>v c. 10 * v + (c - 48)) v s, [])"
proof (induction s arbitrary: prev n v)
  case Nil
  then show ?case by simp
next
  case (Cons c cs)
  from Cons.prems have cs: "list_all is_digit cs" and c: "is_digit c" by simp_all
  from c have c95: "c \<noteq> 95" by (auto simp: is_digit_def)
  from Cons.IH [OF cs c95] c c95 show ?case by simp
qed

lemma py_int_digits:
  assumes "seg \<noteq> []" and "list_all is_digit seg"
  shows "py_int rt seg =
           (if 640 < length seg \<and> 0 < max_str_digits rt \<and> max_str_digits rt < length seg
            then Inl ValueError else Inr (int (dec_value seg)))"
proof -
  from assms obtain c cs where seg: "seg = c # cs" and c: "is_digit c"
    by (cases seg) auto
  from assms(2) have "list_all (\<lambda>c. c < 128) seg"
    by (induction seg) (auto simp: is_digit_def)
  then have ascii: "to_ascii rt seg = seg" by (simp add: to_ascii_def)
  from c have blank: "dropWhile c_isspace seg = seg"
    by (auto simp: seg is_digit_def c_isspace_def)
  from c have sign: "read_sign seg = (1, seg)"
    by (auto simp: seg is_digit_def)
  from c have under: "take (Suc 0) seg \<noteq> [95]"
    by (auto simp: seg is_digit_def)
  have scan: "scan_digits 0 0 0 seg = Inr (length seg, dec_value seg, [])"
    using scan_digits_all_digits [OF assms(2), of 0 0 0] by (simp add: dec_value_def)
  show ?thesis
    using assms(1) by (simp add: py_int_def ascii blank sign under scan)
qed

lemma foldl_dec_lower:
  "(v::nat) * 10 ^ length s \<le> foldl (\<lambda>v c. 10 * v + (c - 48)) v s"
proof (induction s arbitrary: v)
  case Nil
  show ?case by simp
next
  case (Cons c cs)
  have "v * 10 ^ length (c # cs) \<le> (10 * v + (c - 48)) * 10 ^ length cs"
    by (simp add: algebra_simps)
  also have "\<dots> \<le> foldl (\<lambda>v c. 10 * v + (c - 48)) (10 * v + (c - 48)) cs"
    by (rule Cons.IH)
  finally show ?case by simp
qed

lemma dec_value_long:
  assumes "list_all is_digit seg" and "hd seg \<noteq> 48" and "3 < length seg"
  shows "255 < dec_value seg"
proof -
  from assms obtain c cs where seg: "seg = c # cs" and c: "49 \<le> c" and cs: "3 \<le> length cs"
    by (cases seg) (auto simp: is_digit_def)
  have "(10::nat) ^ 3 \<le> 10 ^ length cs"
    using cs by (intro power_increasing) simp_all
  also have "\<dots> \<le> (c - 48) * 10 ^ length cs"
    using c by simp
  also have "\<dots> \<le> dec_value seg"
    using foldl_dec_lower [of "c - 48" cs] by (simp add: seg dec_value_def)
  finally show ?thesis by simp
qed

lemma loop_body_numeric:
  assumes "seg \<noteq> []" and "list_all is_digit seg" and "\<not> (1 < length seg \<and> hd seg = 48)"
  shows "loop_body rt seg = (if dec_value seg \<le> 255 then Inr Continue else Inr (Return False))"
proof (cases "640 < length seg")
  case True
  with assms have "255 < dec_value seg" by (intro dec_value_long) auto
  with assms show ?thesis
    by (simp add: loop_body_def leading_zero_no_raise py_int_digits)
next
  case False
  with assms show ?thesis
    by (auto simp: loop_body_def leading_zero_no_raise py_int_digits)
qed

lemma octets_loop_numeric:
  "\<forall>seg\<in>set octets. seg \<noteq> [] \<and> list_all is_digit seg \<and> \<not> (1 < length seg \<and> hd seg = 48) \<Longrightarrow>
   octets_loop rt octets = Inr (\<forall>seg\<in>set octets. dec_value seg \<le> 255)"
proof (induction octets)
  case Nil
  show ?case by simp
next
  case (Cons octet octets)
  then have "loop_body rt octet =
      (if dec_value octet \<le> 255 then Inr Continue else Inr (Return False))"
    by (intro loop_body_numeric) auto
  with Cons show ?case by auto
qed

lemma grammar_accepted: "spec_grammar s \<Longrightarrow> is_valid_ipv4 rt (PyStr s) = Inr True"
proof -
  assume g: "spec_grammar s"
  let ?octets = "py_split 46 (py_strip s)"
  from g have "\<forall>seg\<in>set ?octets.
      seg \<noteq> [] \<and> list_all is_digit seg \<and> \<not> (1 < length seg \<and> hd seg = 48)"
    by (auto simp: spec_grammar_def spec_octet_def list_all_iff)
  then have "octets_loop rt ?octets = Inr (\<forall>seg\<in>set ?octets. dec_value seg \<le> 255)"
    by (rule octets_loop_numeric)
  with g show ?thesis
    by (auto simp: is_valid_ipv4_def spec_grammar_def spec_octet_def list_all_iff)
qed

section \<open>The claims\<close>

subsection \<open>Type contract\<close>

text \<open>
  Claim C4. For every input that is not a string (\<^verbatim>\<open>None\<close>, integers, booleans,
  lists, dictionaries, and bytes as well) \<^verbatim>\<open>is_valid_ipv4\<close> raises
  \<^verbatim>\<open>TypeError\<close>: the result is the error, never a boolean verdict. The instances
  are the non-string inputs of the module's own demonstration block.
\<close>

theorem non_string_type_error:
  "((\<forall>s. v \<noteq> PyStr s) \<longrightarrow> is_valid_ipv4 rt v = Inl TypeError) \<and>
   is_valid_ipv4 rt PyNone = Inl TypeError \<and>
   is_valid_ipv4 rt (PyInt 123456789) = Inl TypeError \<and>
   is_valid_ipv4 rt (PyBool True) = Inl TypeError \<and>
   is_valid_ipv4 rt (PyList [PyStr (ustr ''1.1.1.1'')]) = Inl TypeError \<and>
   is_valid_ipv4 rt (PyDict [(PyStr (ustr ''ip''), PyStr (ustr ''1.1.1.1''))]) = Inl TypeError"
  by (cases v) (simp_all add: is_valid_ipv4_def)

text \<open>The law at a \<^verbatim>\<open>bytes\<close> value, on the concrete runtime.\<close>

theorem non_string_type_error_witness:
  "(\<forall>s. PyBytes (ustr ''1.1.1.1'') \<noteq> PyStr s) \<and>
   is_valid_ipv4 cpython311 (PyBytes (ustr ''1.1.1.1'')) = Inl TypeError"
  using non_string_type_error [of "PyBytes (ustr ''1.1.1.1'')" cpython311] by simp

subsection \<open>Totality on strings\<close>


subsection \<open>Segment count\<close>

lemma py_strip_all_space: "list_all py_isspace s \<Longrightarrow> py_strip s = []"
proof -
  assume "list_all py_isspace s"
  then have "dropWhile py_isspace s = []"
    by (simp add: dropWhile_eq_Nil_conv list_all_iff)
  then show ?thesis by (simp only: py_strip_def rev.simps dropWhile.simps)
qed

text \<open>
  Claim C6. For every string \<open>s\<close>, if splitting the stripped string on the dot gives
  a number of segments other than 4, the verdict is \<^verbatim>\<open>False\<close>. In particular
  every string of whitespace only, the empty string among them, is rejected.
\<close>

theorem segment_count_law:
  "(length (py_split 46 (py_strip s)) \<noteq> 4 \<longrightarrow> is_valid_ipv4 rt (PyStr s) = Inr False) \<and>
   (list_all py_isspace s \<longrightarrow> is_valid_ipv4 rt (PyStr s) = Inr False) \<and>
   is_valid_ipv4 rt (PyStr (ustr '''')) = Inr False \<and>
   is_valid_ipv4 rt (PyStr (ustr '' '')) = Inr False"
  by (simp add: is_valid_ipv4_def py_strip_all_space py_split_def)
    (simp add: ustr_def py_strip_def py_isspace_def)

text \<open>
  The law at \<^verbatim>\<open>"192.168.1.1.1"\<close> (five segments) and at a string of a tab, a
  blank and a line feed.
\<close>

theorem segment_count_law_witness:
  "length (py_split 46 (py_strip (ustr ''192.168.1.1.1''))) = 5 \<and>
   is_valid_ipv4 cpython311 (PyStr (ustr ''192.168.1.1.1'')) = Inr False \<and>
   list_all py_isspace (ustr [CHR 0x09, CHR '' '', CHR 0x0A]) \<and>
   is_valid_ipv4 cpython311 (PyStr (ustr [CHR 0x09, CHR '' '', CHR 0x0A])) = Inr False"
  using segment_count_law [of "ustr ''192.168.1.1.1''" cpython311]
    segment_count_law [of "ustr [CHR 0x09, CHR '' '', CHR 0x0A]" cpython311]
  by (simp add: ustr_def py_strip_def py_isspace_def py_split_def)

subsection \<open>Leading zeros\<close>

text \<open>
  Claim C7. For every string input, if some segment is longer than one character and
  begins with the digit 0, the verdict is \<^verbatim>\<open>False\<close> whatever the segment's value;
  \<^verbatim>\<open>"192.168.01.1"\<close> is rejected. A segment that is exactly \<^verbatim>\<open>"0"\<close> passes
  the loop body, and \<^verbatim>\<open>"0.0.0.0"\<close> is accepted.
\<close>

theorem leading_zero_law:
  "((\<exists>seg\<in>set (py_split 46 (py_strip s)). 1 < length seg \<and> hd seg = 48) \<longrightarrow>
      is_valid_ipv4 rt (PyStr s) = Inr False) \<and>
   is_valid_ipv4 rt (PyStr (ustr ''192.168.01.1'')) = Inr False \<and>
   loop_body rt (ustr ''0'') = Inr Continue \<and>
   is_valid_ipv4 rt (PyStr (ustr ''0.0.0.0'')) = Inr True"
proof (intro conjI impI)
  assume "\<exists>seg\<in>set (py_split 46 (py_strip s)). 1 < length seg \<and> hd seg = 48"
  then have "octets_loop rt (py_split 46 (py_strip s)) = Inr False"
    by (rule octets_loop_leading_zero)
  then show "is_valid_ipv4 rt (PyStr s) = Inr False"
    by (simp add: is_valid_ipv4_def Let_def)
qed (simp_all add: eval_defs)

text \<open>The law at \<^verbatim>\<open>"10.0.007.1"\<close>, whose third segment has value 7.\<close>

theorem leading_zero_law_witness:
  "py_split 46 (py_strip (ustr ''10.0.007.1'')) = [ustr ''10'', ustr ''0'', ustr ''007'', ustr ''1''] \<and>
   1 < length (ustr ''007'') \<and> hd (ustr ''007'') = 48 \<and>
   is_valid_ipv4 cpython311 (PyStr (ustr ''10.0.007.1'')) = Inr False"
  using leading_zero_law [of "ustr ''10.0.007.1''" cpython311]
  by (simp add: ustr_def py_strip_def py_isspace_def py_split_def)

subsection \<open>Stripping by the caller\<close>

text \<open>
  Claim C8. For every string \<open>s\<close> the verdict on \<open>s\<close> equals the verdict on the
  stripped \<open>s\<close>: the function strips once itself, and stripping is idempotent. In
  particular \<^verbatim>\<open>"  192.168.1.1  "\<close> is accepted.
\<close>

theorem trim_idempotence:
  "is_valid_ipv4 rt (PyStr (py_strip s)) = is_valid_ipv4 rt (PyStr s) \<and>
   is_valid_ipv4 rt (PyStr (ustr ''  192.168.1.1  '')) = Inr True"
  by (simp add: is_valid_ipv4_def py_strip_idem) (simp add: eval_defs)

subsection \<open>Soundness of acceptance\<close>

text \<open>
  Claim C10. If \<^verbatim>\<open>is_valid_ipv4(s)\<close> returns \<^verbatim>\<open>True\<close>, the stripped string
  splits on the dot into exactly 4 segments, each of them non-empty, none longer than
  one character with first character 0, and each parsed by \<^verbatim>\<open>int()\<close> to a value
  between 0 and 255.
\<close>

theorem acceptance_sound:
  "is_valid_ipv4 rt (PyStr s) = Inr True \<Longrightarrow>
   length (py_split 46 (py_strip s)) = 4 \<and>
   (\<forall>seg\<in>set (py_split 46 (py_strip s)).
      seg \<noteq> [] \<and> \<not> (1 < length seg \<and> hd seg = 48) \<and>
      (\<exists>num. py_int rt seg = Inr num \<and> 0 \<le> num \<and> num \<le> 255))"
  by (auto simp: is_valid_ipv4_def Let_def octets_loop_True loop_body_Continue
      split: if_splits)

text \<open>The law at \<^verbatim>\<open>"192.168.1.1"\<close>.\<close>

theorem acceptance_sound_witness:
  "is_valid_ipv4 cpython311 (PyStr (ustr ''192.168.1.1'')) = Inr True \<and>
   length (py_split 46 (py_strip (ustr ''192.168.1.1''))) = 4 \<and>
   list_all (\<lambda>seg. seg \<noteq> [] \<and> \<not> (1 < length seg \<and> hd seg = 48) \<and>
      (\<exists>num. py_int cpython311 seg = Inr num \<and> 0 \<le> num \<and> num \<le> 255))
     (py_split 46 (py_strip (ustr ''192.168.1.1'')))"
proof -
  have ok: "is_valid_ipv4 cpython311 (PyStr (ustr ''192.168.1.1'')) = Inr True"
    by (simp add: eval_defs)
  from acceptance_sound [OF ok] ok show ?thesis
    by (simp only: list_all_iff) simp
qed

subsection \<open>The range law\<close>

text \<open>
  Claim C3. For every string whose stripped form splits on the dot into exactly 4
  segments, each a non-empty string of the digits 0-9 without a leading zero, the
  verdict is \<^verbatim>\<open>True\<close> if and only if the decimal value of every segment is at
  most 255 (it is never below 0). In particular \<^verbatim>\<open>"255.255.255.255"\<close> is
  accepted and \<^verbatim>\<open>"256.0.0.0"\<close> is rejected.
\<close>

theorem range_law:
  "(length (py_split 46 (py_strip s)) = 4 \<and>
    (\<forall>seg\<in>set (py_split 46 (py_strip s)).
       seg \<noteq> [] \<and> list_all is_digit seg \<and> \<not> (1 < length seg \<and> hd seg = 48)) \<longrightarrow>
    is_valid_ipv4 rt (PyStr s) =
      Inr (\<forall>seg\<in>set (py_split 46 (py_strip s)). dec_value seg \<le> 255)) \<and>
   is_valid_ipv4 rt (PyStr (ustr ''255.255.255.255'')) = Inr True \<and>
   is_valid_ipv4 rt (PyStr (ustr ''256.0.0.0'')) = Inr False"
proof (intro conjI impI)
  assume "length (py_split 46 (py_strip s)) = 4 \<and>
    (\<forall>seg\<in>set (py_split 46 (py_strip s)).
       seg \<noteq> [] \<and> list_all is_digit seg \<and> \<not> (1 < length seg \<and> hd seg = 48))"
  then show "is_valid_ipv4 rt (PyStr s) =
      Inr (\<forall>seg\<in>set (py_split 46 (py_strip s)). dec_value seg \<le> 255)"
    by (simp add: is_valid_ipv4_def Let_def octets_loop_numeric)
qed (simp_all add: eval_defs)

text \<open>
  The law at \<^verbatim>\<open>"172.16.254.1"\<close>, all segments in range, and at
  \<^verbatim>\<open>"123.456.789.0"\<close>, two segments out of range.
\<close>

theorem range_law_witness:
  "length (py_split 46 (py_strip (ustr ''172.16.254.1''))) = 4 \<and>
   list_all (\<lambda>seg. seg \<noteq> [] \<and> list_all is_digit seg \<and> \<not> (1 < length seg \<and> hd seg = 48))
     (py_split 46 (py_strip (ustr ''172.16.254.1''))) \<and>
   list_all (\<lambda>seg. dec_value seg \<le> 255) (py_split 46 (py_strip (ustr ''172.16.254.1''))) \<and>
   is_valid_ipv4 cpython311 (PyStr (ustr ''172.16.254.1'')) = Inr True \<and>
   length (py_split 46 (py_strip (ustr ''123.456.789.0''))) = 4 \<and>
   list_all (\<lambda>seg. seg \<noteq> [] \<and> list_all is_digit seg \<and> \<not> (1 < length seg \<and> hd seg = 48))
     (py_split 46 (py_strip (ustr ''123.456.789.0''))) \<and>
   \<not> list_all (\<lambda>seg. dec_value seg \<le> 255) (py_split 46 (py_strip (ustr ''123.456.789.0''))) \<and>
   is_valid_ipv4 cpython311 (PyStr (ustr ''123.456.789.0'')) = Inr False"
  using range_law [of "ustr ''172.16.254.1''" cpython311]
    range_law [of "ustr ''123.456.789.0''" cpython311]
  by (simp add: ustr_def py_strip_def py_isspace_def py_split_def is_digit_def dec_value_def)

subsection \<open>What int() lets through\<close>

text \<open>
  Claim C9. There are strings with characters other than the digits and the dot inside
  a segment that \<^verbatim>\<open>is_valid_ipv4\<close> accepts: \<^verbatim>\<open>int()\<close> reads a sign,
  blanks around the number and single underscores between digits, so
  \<^verbatim>\<open>"+1.2.3.4"\<close>, \<^verbatim>\<open>"-0.0.0.0"\<close>, \<^verbatim>\<open>"1_0.2.3.4"\<close> and
  \<^verbatim>\<open>"1.2.3. 4"\<close> all return \<^verbatim>\<open>True\<close>.
\<close>

theorem lenient_inputs_accepted:
  "is_valid_ipv4 rt (PyStr (ustr ''+1.2.3.4'')) = Inr True \<and>
   \<not> list_all (\<lambda>c. is_digit c \<or> c = 46) (ustr ''+1.2.3.4'') \<and>
   is_valid_ipv4 rt (PyStr (ustr ''-0.0.0.0'')) = Inr True \<and>
   \<not> list_all (\<lambda>c. is_digit c \<or> c = 46) (ustr ''-0.0.0.0'') \<and>
   is_valid_ipv4 rt (PyStr (ustr ''1_0.2.3.4'')) = Inr True \<and>
   \<not> list_all (\<lambda>c. is_digit c \<or> c = 46) (ustr ''1_0.2.3.4'') \<and>
   is_valid_ipv4 rt (PyStr (ustr ''1.2.3. 4'')) = Inr True \<and>
   \<not> list_all (\<lambda>c. is_digit c \<or> c = 46) (ustr ''1.2.3. 4'') \<and>
   py_int rt (ustr ''+1'') = Inr 1 \<and>
   py_int rt (ustr ''-0'') = Inr 0 \<and>
   py_int rt (ustr ''1_0'') = Inr 10 \<and>
   py_int rt (ustr '' 4'') = Inr 4"
  by (simp add: eval_defs)

text \<open>
  Claim C2. The specification says that a segment with a character outside 0-9 forces
  \<^verbatim>\<open>False\<close>, and names \<^verbatim>\<open>"1.2.3. 4"\<close>; the module's own table of examples
  expects \<^verbatim>\<open>False\<close> for it as well ("Internal space"). The code returns
  \<^verbatim>\<open>True\<close>: the last segment is a blank and the digit 4, which is not a string of
  digits, and \<^verbatim>\<open>int()\<close> reads it as 4.
\<close>

theorem interior_space_accepted:
  "py_split 46 (py_strip (ustr ''1.2.3. 4'')) = [ustr ''1'', ustr ''2'', ustr ''3'', ustr '' 4''] \<and>
   \<not> list_all is_digit (ustr '' 4'') \<and>
   py_int rt (ustr '' 4'') = Inr 4 \<and>
   is_valid_ipv4 rt (PyStr (ustr ''1.2.3. 4'')) = Inr True"
  by (simp add: eval_defs)

text \<open>
  Claim C1. The specification says that the verdict is \<^verbatim>\<open>True\<close> exactly for the
  strings of the grammar \<open>spec_grammar\<close>. Every string of the grammar is accepted
  (\<open>grammar_accepted\<close> above), but the converse fails, by the same leniency of
  \<^verbatim>\<open>int()\<close>: \<^verbatim>\<open>"1.2.3. 4"\<close> is outside the grammar and the code accepts it.
\<close>

theorem grammar_not_exact:
  "\<not> spec_grammar (ustr ''1.2.3. 4'') \<and>
   is_valid_ipv4 rt (PyStr (ustr ''1.2.3. 4'')) = Inr True"
  by (simp add: spec_grammar_def spec_octet_def eval_defs)

end
